theory Spec2Isabelle
  imports Main "HOL-Library.Word" "HOL-Library.AList"
begin

section \<open>Data model\<close>

text \<open>
  Machine integers are 64-bit words, so that \<open>+\<close> and \<open>-\<close> wrap as they do in
  Go: a \<^verbatim>\<open>uint64\<close> is a word read with \<open>uint\<close>, an \<^verbatim>\<open>int64\<close> or an \<^verbatim>\<open>int\<close> (on a
  64-bit platform) is a word read with \<open>sint\<close>. A conversion \<^verbatim>\<open>int64(x)\<close> or
  \<^verbatim>\<open>uint64(i)\<close> keeps the bit pattern and changes only the reading. An address
  (\<^verbatim>\<open>[32]byte\<close>) is a 256-bit word; the zero address is \<open>0\<close>.
\<close>

type_synonym Address = "256 word"
type_synonym uint64 = "64 word"
type_synonym int64 = "64 word"
type_synonym goint = "64 word"

definition to_int64 :: "uint64 \<Rightarrow> int64" where
  "to_int64 x = x"

definition to_uint64 :: "goint \<Rightarrow> uint64" where
  "to_uint64 i = i"

text \<open>
  Bytes and JSON text that the program only ever passes through an external codec
  (\<^verbatim>\<open>msgpack.Decode\<close>, \<^verbatim>\<open>json.Decode\<close>) are represented by what the codec makes
  of them: either they do not decode (\<open>Garbled\<close>), or they are the encoding of a
  value (\<open>Enc v\<close>).
\<close>

datatype 'a blob = Garbled | Enc 'a

text \<open>
  Modelled from the spec: \<^verbatim>\<open>types.AssetParams\<close> and its method \<^verbatim>\<open>IsZero\<close> are declared
  outside \<^verbatim>\<open>src/\<close>. The code reads the fields \<^verbatim>\<open>Total\<close> and \<^verbatim>\<open>DefaultFrozen\<close>; the
  remaining fields are kept as one opaque value whose zero is the empty list. The spec
  calls the destroy case "the supplied parameters are the zero value".
\<close>

record AssetParams =
  Total :: uint64
  DefaultFrozen :: bool
  OtherParams :: "8 word list"

definition IsZero :: "AssetParams \<Rightarrow> bool" where
  "IsZero p = (Total p = 0 \<and> \<not> DefaultFrozen p \<and> OtherParams p = [])"

text \<open>
  The fields of \<^verbatim>\<open>types.SignedTxnInBlock\<close> that \<^verbatim>\<open>AddTransaction\<close> reads
  (the type itself is declared outside \<^verbatim>\<open>src/\<close>).
\<close>

record Transaction =
  Type :: string
  Sender :: Address
  Fee :: uint64
  Amount :: uint64
  Receiver :: Address
  CloseRemainderTo :: Address
  ConfigAsset :: uint64
  AssetParams :: AssetParams
  XferAsset :: uint64
  AssetAmount :: uint64
  AssetSender :: Address
  AssetReceiver :: Address
  AssetCloseTo :: Address
  FreezeAccount :: Address
  FreezeAsset :: uint64
  AssetFrozen :: bool

record SignedTxnInBlock =
  Txn :: Transaction
  SenderRewards :: uint64
  ReceiverRewards :: uint64
  ClosingAmount :: uint64
  CloseRewards :: uint64

record Block =
  FeeSink :: Address
  RewardsPool :: Address
  RewardsLevel :: uint64

text \<open>The entries of \<^verbatim>\<open>idb.RoundUpdates\<close>, with the fields the code gives them.\<close>

datatype AssetUpdate =
  AssetUpdate (au_Addr: Address) (au_AssetId: uint64) (au_Delta: int64) (au_DefaultFrozen: bool)

datatype AcfgUpdate =
  AcfgUpdate (ac_AssetId: uint64) (ac_Creator: Address) (ac_Params: AssetParams)

datatype FreezeUpdate =
  FreezeUpdate (fu_Addr: Address) (fu_AssetId: uint64) (fu_Frozen: bool)

datatype AssetClose =
  AssetClose (cl_CloseTo: Address) (cl_AssetId: uint64) (cl_Sender: Address)

text \<open>
  \<^verbatim>\<open>AlgoUpdates\<close> is a Go map from address to \<^verbatim>\<open>int64\<close>. It is an association list
  with one entry per key, because \<^verbatim>\<open>CommitRoundAccounting\<close> iterates over it; a nil
  map and an empty map are both \<open>[]\<close> (\<^verbatim>\<open>len\<close> is 0 for both).
\<close>

record RoundUpdates =
  AlgoUpdates :: "(Address \<times> int64) list"
  AssetUpdates :: "AssetUpdate list"
  AcfgUpdates :: "AcfgUpdate list"
  FreezeUpdates :: "FreezeUpdate list"
  AssetCloses :: "AssetClose list"
  AssetDestroys :: "uint64 list"

definition noUpdates :: RoundUpdates where
  "noUpdates = \<lparr>AlgoUpdates = [], AssetUpdates = [], AcfgUpdates = [],
     FreezeUpdates = [], AssetCloses = [], AssetDestroys = []\<rparr>"

record ImportState =
  AccountRound :: int64

section \<open>Storage\<close>

text \<open>
  Modelled from the spec: the schema (\<^verbatim>\<open>setup_postgres.sql\<close>) is not under \<^verbatim>\<open>src/\<close>.
  Each table is an association list keyed by its conflict target (one row per key), in
  insertion order. The numeric columns \<^verbatim>\<open>microalgos\<close>, \<^verbatim>\<open>rewardsbase\<close> and \<^verbatim>\<open>amount\<close>
  are unbounded integers. A column that an \<^verbatim>\<open>INSERT\<close> does not name takes the schema's
  default, written \<open>None\<close>.
\<close>

record AccountRow =
  microalgos :: int
  rewardsbase :: int
  account_data :: "string option"

record AssetRow =
  creator_addr :: Address
  params :: AssetParams

record HoldingRow =
  amount :: int
  frozen :: "bool option"

record DbState =
  account :: "(Address \<times> AccountRow) list"
  asset :: "(uint64 \<times> AssetRow) list"
  account_asset :: "((Address \<times> uint64) \<times> HoldingRow) list"
  metastate :: "(string \<times> ImportState blob) list"
  block_header :: "(uint64 \<times> Block blob) list"

text \<open>
  \<^verbatim>\<open>INSERT ... ON CONFLICT (key) DO UPDATE\<close>: a new row when the key is absent,
  otherwise the existing row changed by \<open>upd\<close>.
\<close>

definition upsert :: "'k \<Rightarrow> 'v \<Rightarrow> ('v \<Rightarrow> 'v) \<Rightarrow> ('k \<times> 'v) list \<Rightarrow> ('k \<times> 'v) list" where
  "upsert k new upd t =
     (case map_of t k of
        None \<Rightarrow> t @ [(k, new)]
      | Some old \<Rightarrow> AList.update k (upd old) t)"

text \<open>
  Every statement the program sends to the database, with its arguments, and what can
  become of it: \<open>Done\<close>, it runs; \<open>Refused\<close>, the call returns an error and the
  statement has not run (the driver rejects an argument before anything is sent, say),
  so the transaction stays usable; \<open>Aborted\<close>, the server reports an error, and
  PostgreSQL then refuses every later statement of the transaction. The parameter
  \<open>fails\<close> of the functions below gives the outcome of each statement.
\<close>

datatype outcome = Done | Refused | Aborted

datatype stmt =
    Begin
  | PrepareSetAlgo | ExecSetAlgo Address int64 uint64
  | PrepareSetAcfg | ExecSetAcfg AcfgUpdate
  | PrepareSetAsset | ExecSetAsset AssetUpdate
  | PrepareFreeze | ExecFreeze FreezeUpdate
  | PrepareClose1 | PrepareClose2 | ExecCloseSend AssetClose | ExecCloseDel Address
  | PrepareDestroy | ExecDestroy uint64
  | QueryState | ExecSetState | Commit
  | QueryBlock uint64

datatype error =
    ErrBegin
  | ErrPrepareUpdateAlgo | ErrUpdateAlgo
  | ErrPrepareSetAsset | ErrUpdateAsset
  | ErrPrepareSetAccountAsset | ErrUpdateAccountAsset
  | ErrPrepareAssetFreeze | ErrUpdateAssetFreeze
  | ErrPrepareAssetClose1 | ErrPrepareAssetClose2 | ErrAssetCloseSend | ErrAssetCloseDel
  | ErrPrepareAssetDestroy | ErrAssetDestroy
  | ErrStateQuery | ErrStateDecode | ErrStateWrite | ErrCommit
  | ErrGetBlock | ErrBlockDecode
  | ErrQuery | ErrScan
  | FailedDecode uint64 goint
  | AddTxCommitRound uint64 error
  | AddTxInitRound uint64 error
  | UnknownType uint64 goint string

definition bindE :: "error + 'a \<Rightarrow> ('a \<Rightarrow> error + 'b) \<Rightarrow> error + 'b" where
  "bindE m f = (case m of Inl e \<Rightarrow> Inl e | Inr x \<Rightarrow> f x)"

subsection \<open>CommitRoundAccounting (idb/postgres.go)\<close>

text \<open>Lines 243-257: the algo deltas, an upsert-add on \<^verbatim>\<open>account\<close>.\<close>

fun setalgo_loop :: "(stmt \<Rightarrow> outcome) \<Rightarrow> uint64 \<Rightarrow> (Address \<times> int64) list \<Rightarrow> DbState \<Rightarrow> error + DbState" where
  "setalgo_loop fails rewardsBase [] tx = Inr tx"
| "setalgo_loop fails rewardsBase ((addr, delta) # rest) tx =
     (if fails (ExecSetAlgo addr delta rewardsBase) \<noteq> Done then Inl ErrUpdateAlgo
      else setalgo_loop fails rewardsBase rest
        (tx\<lparr>account := upsert addr
            \<lparr>microalgos = sint delta, rewardsbase = uint rewardsBase, account_data = None\<rparr>
            (\<lambda>row. row\<lparr>microalgos := microalgos row + sint delta, rewardsbase := uint rewardsBase\<rparr>)
            (account tx)\<rparr>))"

definition setalgo_block :: "(stmt \<Rightarrow> outcome) \<Rightarrow> RoundUpdates \<Rightarrow> uint64 \<Rightarrow> DbState \<Rightarrow> error + DbState" where
  "setalgo_block fails updates rewardsBase tx =
     (if AlgoUpdates updates \<noteq> [] then
        (if fails PrepareSetAlgo \<noteq> Done then Inl ErrPrepareUpdateAlgo
         else setalgo_loop fails rewardsBase (AlgoUpdates updates) tx)
      else Inr tx)"

text \<open>Lines 258-271: the asset parameters, insert or replace \<^verbatim>\<open>params\<close> by asset id.\<close>

fun setacfg_loop :: "(stmt \<Rightarrow> outcome) \<Rightarrow> AcfgUpdate list \<Rightarrow> DbState \<Rightarrow> error + DbState" where
  "setacfg_loop fails [] tx = Inr tx"
| "setacfg_loop fails (au # rest) tx =
     (if fails (ExecSetAcfg au) \<noteq> Done then Inl ErrUpdateAsset
      else setacfg_loop fails rest
        (tx\<lparr>asset := upsert (ac_AssetId au)
            \<lparr>creator_addr = ac_Creator au, params = ac_Params au\<rparr>
            (\<lambda>row. row\<lparr>params := ac_Params au\<rparr>)
            (asset tx)\<rparr>))"

definition setacfg_block :: "(stmt \<Rightarrow> outcome) \<Rightarrow> RoundUpdates \<Rightarrow> DbState \<Rightarrow> error + DbState" where
  "setacfg_block fails updates tx =
     (if AcfgUpdates updates \<noteq> [] then
        (if fails PrepareSetAcfg \<noteq> Done then Inl ErrPrepareSetAsset
         else setacfg_loop fails (AcfgUpdates updates) tx)
      else Inr tx)"

text \<open>
  Lines 272-285: the holding deltas, an upsert-add on \<^verbatim>\<open>account_asset\<close>; the frozen
  flag is written only when the row is created.
\<close>

fun seta_loop :: "(stmt \<Rightarrow> outcome) \<Rightarrow> AssetUpdate list \<Rightarrow> DbState \<Rightarrow> error + DbState" where
  "seta_loop fails [] tx = Inr tx"
| "seta_loop fails (au # rest) tx =
     (if fails (ExecSetAsset au) \<noteq> Done then Inl ErrUpdateAccountAsset
      else seta_loop fails rest
        (tx\<lparr>account_asset := upsert (au_Addr au, au_AssetId au)
            \<lparr>amount = sint (au_Delta au), frozen = Some (au_DefaultFrozen au)\<rparr>
            (\<lambda>row. row\<lparr>amount := amount row + sint (au_Delta au)\<rparr>)
            (account_asset tx)\<rparr>))"

definition seta_block :: "(stmt \<Rightarrow> outcome) \<Rightarrow> RoundUpdates \<Rightarrow> DbState \<Rightarrow> error + DbState" where
  "seta_block fails updates tx =
     (if AssetUpdates updates \<noteq> [] then
        (if fails PrepareSetAsset \<noteq> Done then Inl ErrPrepareSetAccountAsset
         else seta_loop fails (AssetUpdates updates) tx)
      else Inr tx)"

text \<open>Lines 286-299: the freeze flags; a row with amount 0 when there is none.\<close>

fun fr_loop :: "(stmt \<Rightarrow> outcome) \<Rightarrow> FreezeUpdate list \<Rightarrow> DbState \<Rightarrow> error + DbState" where
  "fr_loop fails [] tx = Inr tx"
| "fr_loop fails (fs # rest) tx =
     (if fails (ExecFreeze fs) \<noteq> Done then Inl ErrUpdateAssetFreeze
      else fr_loop fails rest
        (tx\<lparr>account_asset := upsert (fu_Addr fs, fu_AssetId fs)
            \<lparr>amount = 0, frozen = Some (fu_Frozen fs)\<rparr>
            (\<lambda>row. row\<lparr>frozen := Some (fu_Frozen fs)\<rparr>)
            (account_asset tx)\<rparr>))"

definition fr_block :: "(stmt \<Rightarrow> outcome) \<Rightarrow> RoundUpdates \<Rightarrow> DbState \<Rightarrow> error + DbState" where
  "fr_block fails updates tx =
     (if FreezeUpdates updates \<noteq> [] then
        (if fails PrepareFreeze \<noteq> Done then Inl ErrPrepareAssetFreeze
         else fr_loop fails (FreezeUpdates updates) tx)
      else Inr tx)"

text \<open>
  Lines 300-324: the closures. The statement \<^verbatim>\<open>acs\<close> is
  \<^verbatim>\<open>INSERT INTO account_asset (addr, assetid, amount) SELECT $1, $2, x.amount
  FROM account_asset x WHERE x.addr = $3 ON CONFLICT (addr, assetid) DO UPDATE SET
  amount = account_asset.amount + EXCLUDED.amount\<close>: its \<^verbatim>\<open>SELECT\<close> takes every row of
  the sender, whatever the asset, and proposes each of them for the one key
  \<^verbatim>\<open>($1, $2)\<close>. With no such row nothing is inserted; with one, its amount is
  upsert-added; with several, PostgreSQL refuses the statement (an
  \<^verbatim>\<open>ON CONFLICT DO UPDATE\<close> command cannot affect a row a second time). The statement
  \<^verbatim>\<open>acd\<close> is \<^verbatim>\<open>DELETE FROM account_asset WHERE addr = $1\<close>.
\<close>

definition acs_exec :: "Address \<Rightarrow> uint64 \<Rightarrow> Address \<Rightarrow> ((Address \<times> uint64) \<times> HoldingRow) list
    \<Rightarrow> ((Address \<times> uint64) \<times> HoldingRow) list option" where
  "acs_exec closeTo assetId sender t =
     (case filter (\<lambda>(k, x). fst k = sender) t of
        [] \<Rightarrow> Some t
      | [(k, x)] \<Rightarrow> Some (upsert (closeTo, assetId)
            \<lparr>amount = amount x, frozen = None\<rparr>
            (\<lambda>row. row\<lparr>amount := amount row + amount x\<rparr>) t)
      | _ \<Rightarrow> None)"

definition acd_exec :: "Address \<Rightarrow> ((Address \<times> uint64) \<times> HoldingRow) list
    \<Rightarrow> ((Address \<times> uint64) \<times> HoldingRow) list" where
  "acd_exec sender t = filter (\<lambda>(k, x). fst k \<noteq> sender) t"

fun closes_loop :: "(stmt \<Rightarrow> outcome) \<Rightarrow> AssetClose list \<Rightarrow> DbState \<Rightarrow> error + DbState" where
  "closes_loop fails [] tx = Inr tx"
| "closes_loop fails (ac # rest) tx =
     (if fails (ExecCloseSend ac) \<noteq> Done then Inl ErrAssetCloseSend
      else case acs_exec (cl_CloseTo ac) (cl_AssetId ac) (cl_Sender ac) (account_asset tx) of
        None \<Rightarrow> Inl ErrAssetCloseSend
      | Some t \<Rightarrow>
          (if fails (ExecCloseDel (cl_Sender ac)) \<noteq> Done then Inl ErrAssetCloseDel
           else closes_loop fails rest (tx\<lparr>account_asset := acd_exec (cl_Sender ac) t\<rparr>)))"

definition closes_block :: "(stmt \<Rightarrow> outcome) \<Rightarrow> RoundUpdates \<Rightarrow> DbState \<Rightarrow> error + DbState" where
  "closes_block fails updates tx =
     (if AssetCloses updates \<noteq> [] then
        (if fails PrepareClose1 \<noteq> Done then Inl ErrPrepareAssetClose1
         else if fails PrepareClose2 \<noteq> Done then Inl ErrPrepareAssetClose2
         else closes_loop fails (AssetCloses updates) tx)
      else Inr tx)"

text \<open>
  Lines 325-339: the destructions. The result of \<^verbatim>\<open>ads.Exec(assetId)\<close> is dropped and
  the \<^verbatim>\<open>err\<close> tested after it is the one of \<^verbatim>\<open>tx.Prepare\<close>, which is nil there: a
  failed delete is skipped and the loop goes on. What remains of the failure is the
  state of the transaction: \<open>aborted\<close> says that the server has refused a statement.
\<close>

fun destroys_loop :: "(stmt \<Rightarrow> outcome) \<Rightarrow> uint64 list \<Rightarrow> DbState \<Rightarrow> bool \<Rightarrow> DbState \<times> bool" where
  "destroys_loop fails [] tx aborted = (tx, aborted)"
| "destroys_loop fails (assetId # rest) tx aborted =
     (if aborted then destroys_loop fails rest tx True
      else case fails (ExecDestroy assetId) of
        Done \<Rightarrow> destroys_loop fails rest
          (tx\<lparr>account_asset := filter (\<lambda>(k, x). snd k \<noteq> assetId) (account_asset tx)\<rparr>) False
      | Refused \<Rightarrow> destroys_loop fails rest tx False
      | Aborted \<Rightarrow> destroys_loop fails rest tx True)"

definition destroys_block :: "(stmt \<Rightarrow> outcome) \<Rightarrow> RoundUpdates \<Rightarrow> DbState
    \<Rightarrow> error + DbState \<times> bool" where
  "destroys_block fails updates tx =
     (if AssetDestroys updates \<noteq> [] then
        (if fails PrepareDestroy \<noteq> Done then Inl ErrPrepareAssetDestroy
         else Inr (destroys_loop fails (AssetDestroys updates) tx False))
      else Inr (tx, False))"

text \<open>
  Lines 343-362: the watermark. The stored document is read and decoded (no row is
  fine, text that does not decode is an error), \<^verbatim>\<open>AccountRound\<close> is set to
  \<^verbatim>\<open>int64(round)\<close>, and the document is written back. In an aborted transaction the
  read fails.
\<close>

definition state_block :: "(stmt \<Rightarrow> outcome) \<Rightarrow> uint64 \<Rightarrow> DbState \<Rightarrow> bool \<Rightarrow> error + DbState" where
  "state_block fails round tx aborted =
     (if aborted \<or> fails QueryState \<noteq> Done then Inl ErrStateQuery
      else case (case map_of (metastate tx) ''state'' of
                   None \<Rightarrow> Inr \<lparr>AccountRound = 0\<rparr>
                 | Some Garbled \<Rightarrow> Inl ErrStateDecode
                 | Some (Enc istate) \<Rightarrow> Inr istate) of
        Inl e \<Rightarrow> Inl e
      | Inr istate \<Rightarrow>
          (if fails ExecSetState \<noteq> Done then Inl ErrStateWrite
           else Inr (tx\<lparr>metastate := upsert ''state''
                  (Enc (istate\<lparr>AccountRound := to_int64 round\<rparr>))
                  (\<lambda>v. Enc (istate\<lparr>AccountRound := to_int64 round\<rparr>))
                  (metastate tx)\<rparr>)))"

text \<open>\<^verbatim>\<open>any\<close> is set by each block that finds its category non-empty.\<close>

definition any_updates :: "RoundUpdates \<Rightarrow> bool" where
  "any_updates updates =
     (AlgoUpdates updates \<noteq> [] \<or> AcfgUpdates updates \<noteq> [] \<or> AssetUpdates updates \<noteq> []
      \<or> FreezeUpdates updates \<noteq> [] \<or> AssetCloses updates \<noteq> [] \<or> AssetDestroys updates \<noteq> [])"

text \<open>
  The whole function. It works on \<open>tx\<close>, the transaction's view of the database;
  \<^verbatim>\<open>tx.Commit()\<close> makes that view the database, and every other return leaves the
  database as it was (\<^verbatim>\<open>defer tx.Rollback()\<close>). The result is the returned error
  (\<open>None\<close> for nil) and the database afterwards.
\<close>

definition CommitRoundAccounting ::
    "(stmt \<Rightarrow> outcome) \<Rightarrow> RoundUpdates \<Rightarrow> uint64 \<Rightarrow> uint64 \<Rightarrow> DbState \<Rightarrow> error option \<times> DbState" where
  "CommitRoundAccounting fails updates round rewardsBase db =
     (if fails Begin \<noteq> Done then (Some ErrBegin, db)
      else case bindE (setalgo_block fails updates rewardsBase db) (\<lambda>tx.
                bindE (setacfg_block fails updates tx) (\<lambda>tx.
                bindE (seta_block fails updates tx) (\<lambda>tx.
                bindE (fr_block fails updates tx) (\<lambda>tx.
                bindE (closes_block fails updates tx) (\<lambda>tx.
                destroys_block fails updates tx))))) of
        Inl e \<Rightarrow> (Some e, db)
      | Inr (tx, aborted) \<Rightarrow>
          (if \<not> any_updates updates then (None, db)
           else case state_block fails round tx aborted of
             Inl e \<Rightarrow> (Some e, db)
           | Inr tx' \<Rightarrow> (if fails Commit \<noteq> Done then (Some ErrCommit, db) else (None, tx'))))"

text \<open>Lines 366-375: \<^verbatim>\<open>GetBlock\<close>; no row for the round is an error of \<^verbatim>\<open>Scan\<close>.\<close>

definition GetBlock :: "(stmt \<Rightarrow> outcome) \<Rightarrow> DbState \<Rightarrow> uint64 \<Rightarrow> error + Block" where
  "GetBlock fails db round =
     (if fails (QueryBlock round) \<noteq> Done then Inl ErrGetBlock
      else case map_of (block_header db) round of
        None \<Rightarrow> Inl ErrGetBlock
      | Some Garbled \<Rightarrow> Inl ErrBlockDecode
      | Some (Enc block) \<Rightarrow> Inr block)"

section \<open>The accounting engine (accounting/accounting.go)\<close>

text \<open>
  \<^verbatim>\<open>AccountingState\<close>. The embedded \<^verbatim>\<open>idb.RoundUpdates\<close> is the field \<open>updates\<close>; the
  database handle \<^verbatim>\<open>db\<close> is the \<open>DbState\<close> that the functions take and return.
  The methods change their receiver in place, also on the paths that return an error,
  so every function returns the state it leaves behind together with the error.
\<close>

record AccountingState =
  defaultFrozen :: "uint64 \<rightharpoonup> bool"
  currentRound :: uint64
  updates :: RoundUpdates
  feeAddr :: Address
  rewardAddr :: Address
  rewardsLevel :: uint64
  txnCounter :: uint64

definition New :: AccountingState where
  "New = \<lparr>defaultFrozen = Map.empty, currentRound = 0, updates = noUpdates,
     feeAddr = 0, rewardAddr = 0, rewardsLevel = 0, txnCounter = 0\<rparr>"

definition initRound :: "(stmt \<Rightarrow> outcome) \<Rightarrow> AccountingState \<Rightarrow> DbState \<Rightarrow> uint64
    \<Rightarrow> error option \<times> AccountingState" where
  "initRound fails accounting db round =
     (case GetBlock fails db round of
        Inl err \<Rightarrow> (Some err, accounting)
      | Inr block \<Rightarrow>
          (None, accounting\<lparr>feeAddr := FeeSink block, rewardAddr := RewardsPool block,
             rewardsLevel := RewardsLevel block, currentRound := round\<rparr>))"

definition commitRound :: "(stmt \<Rightarrow> outcome) \<Rightarrow> AccountingState \<Rightarrow> DbState
    \<Rightarrow> error option \<times> AccountingState \<times> DbState" where
  "commitRound fails accounting db =
     (case CommitRoundAccounting fails (updates accounting) (currentRound accounting)
             (rewardsLevel accounting) db of
        (Some err, db') \<Rightarrow> (Some err, accounting, db')
      | (None, db') \<Rightarrow> (None, accounting\<lparr>updates := noUpdates\<rparr>, db'))"

definition Close :: "(stmt \<Rightarrow> outcome) \<Rightarrow> AccountingState \<Rightarrow> DbState
    \<Rightarrow> error option \<times> AccountingState \<times> DbState" where
  "Close fails accounting db = commitRound fails accounting db"

text \<open>Reading a Go map at a key it does not have gives the zero value.\<close>

definition algoDelta :: "(Address \<times> int64) list \<Rightarrow> Address \<Rightarrow> int64" where
  "algoDelta m addr = (case map_of m addr of None \<Rightarrow> 0 | Some d \<Rightarrow> d)"

definition updateAlgo :: "Address \<Rightarrow> int64 \<Rightarrow> AccountingState \<Rightarrow> AccountingState" where
  "updateAlgo addr d accounting =
     accounting\<lparr>updates := (updates accounting)
       \<lparr>AlgoUpdates := AList.update addr (algoDelta (AlgoUpdates (updates accounting)) addr + d)
                         (AlgoUpdates (updates accounting))\<rparr>\<rparr>"

definition updateAsset :: "Address \<Rightarrow> uint64 \<Rightarrow> int64 \<Rightarrow> AccountingState \<Rightarrow> AccountingState" where
  "updateAsset addr assetId d accounting =
     accounting\<lparr>updates := (updates accounting)
       \<lparr>AssetUpdates := AssetUpdates (updates accounting) @
          [AssetUpdate addr assetId d
             (case defaultFrozen accounting assetId of None \<Rightarrow> False | Some b \<Rightarrow> b)]\<rparr>\<rparr>"

definition closeAsset :: "Address \<Rightarrow> uint64 \<Rightarrow> Address \<Rightarrow> AccountingState \<Rightarrow> AccountingState" where
  "closeAsset from assetId to accounting =
     accounting\<lparr>updates := (updates accounting)
       \<lparr>AssetCloses := AssetCloses (updates accounting) @ [AssetClose to assetId from]\<rparr>\<rparr>"

definition freezeAsset :: "Address \<Rightarrow> uint64 \<Rightarrow> bool \<Rightarrow> AccountingState \<Rightarrow> AccountingState" where
  "freezeAsset addr assetId frz accounting =
     accounting\<lparr>updates := (updates accounting)
       \<lparr>FreezeUpdates := FreezeUpdates (updates accounting) @ [FreezeUpdate addr assetId frz]\<rparr>\<rparr>"

definition destroyAsset :: "uint64 \<Rightarrow> AccountingState \<Rightarrow> AccountingState" where
  "destroyAsset assetId accounting =
     accounting\<lparr>updates := (updates accounting)
       \<lparr>AssetDestroys := AssetDestroys (updates accounting) @ [assetId]\<rparr>\<rparr>"

text \<open>
  \<^verbatim>\<open>AddTransaction\<close>, in the order of its source. Lines 119-128: a transaction of
  another round than \<^verbatim>\<open>currentRound\<close> commits the open batch and loads the new round.
\<close>

definition AddTransaction_round :: "(stmt \<Rightarrow> outcome) \<Rightarrow> AccountingState \<Rightarrow> DbState \<Rightarrow> uint64
    \<Rightarrow> error option \<times> AccountingState \<times> DbState" where
  "AddTransaction_round fails accounting db round =
     (if currentRound accounting \<noteq> round then
        (case commitRound fails accounting db of
           (Some err, accounting', db') \<Rightarrow>
             (Some (AddTxCommitRound (currentRound accounting') err), accounting', db')
         | (None, accounting', db') \<Rightarrow>
             (case initRound fails accounting' db' round of
                (Some err, accounting'') \<Rightarrow> (Some (AddTxInitRound round err), accounting'', db')
              | (None, accounting'') \<Rightarrow> (None, accounting'', db')))
      else (None, accounting, db))"

text \<open>Lines 130-136: the fee, and the sender's rewards.\<close>

definition AddTransaction_fee :: "SignedTxnInBlock \<Rightarrow> AccountingState \<Rightarrow> AccountingState" where
  "AddTransaction_fee stxn accounting =
     (let a1 = updateAlgo (Sender (Txn stxn)) (- to_int64 (Fee (Txn stxn))) accounting;
          a2 = updateAlgo (feeAddr a1) (to_int64 (Fee (Txn stxn))) a1
      in if SenderRewards stxn \<noteq> 0 then
           (let a3 = updateAlgo (Sender (Txn stxn)) (to_int64 (SenderRewards stxn)) a2
            in updateAlgo (rewardAddr a3) (- to_int64 (SenderRewards stxn)) a3)
         else a2)"

text \<open>Lines 138-155: a payment.\<close>

definition AddTransaction_pay :: "SignedTxnInBlock \<Rightarrow> AccountingState \<Rightarrow> AccountingState" where
  "AddTransaction_pay stxn accounting =
     (let amt = to_int64 (Amount (Txn stxn));
          a1 = (if amt \<noteq> 0 then
                  updateAlgo (Receiver (Txn stxn)) amt
                    (updateAlgo (Sender (Txn stxn)) (- amt) accounting)
                else accounting);
          a2 = (if ClosingAmount stxn \<noteq> 0 then
                  updateAlgo (CloseRemainderTo (Txn stxn)) (to_int64 (ClosingAmount stxn))
                    (updateAlgo (Sender (Txn stxn)) (- to_int64 (ClosingAmount stxn)) a1)
                else a1);
          a3 = (if ReceiverRewards stxn \<noteq> 0 then
                  (let b = updateAlgo (Receiver (Txn stxn)) (to_int64 (ReceiverRewards stxn)) a2
                   in updateAlgo (rewardAddr b) (- to_int64 (ReceiverRewards stxn)) b)
                else a2)
      in if CloseRewards stxn \<noteq> 0 then
           (let b = updateAlgo (CloseRemainderTo (Txn stxn)) (to_int64 (CloseRewards stxn)) a3
            in updateAlgo (rewardAddr b) (- to_int64 (CloseRewards stxn)) b)
         else a3)"

text \<open>Lines 158-174: an asset configuration.\<close>

definition AddTransaction_acfg :: "goint \<Rightarrow> SignedTxnInBlock \<Rightarrow> AccountingState \<Rightarrow> AccountingState" where
  "AddTransaction_acfg intra stxn accounting =
     (let assetId = (if ConfigAsset (Txn stxn) = 0
                     then txnCounter accounting + to_uint64 intra + 1
                     else ConfigAsset (Txn stxn))
      in if IsZero (AssetParams (Txn stxn)) then destroyAsset assetId accounting
         else
           (let a1 = accounting\<lparr>updates := (updates accounting)
                       \<lparr>AcfgUpdates := AcfgUpdates (updates accounting) @
                          [AcfgUpdate assetId (Sender (Txn stxn)) (AssetParams (Txn stxn))]\<rparr>\<rparr>;
                a2 = a1\<lparr>defaultFrozen := (defaultFrozen a1)
                       (assetId \<mapsto> DefaultFrozen (AssetParams (Txn stxn)))\<rparr>
            in if ConfigAsset (Txn stxn) = 0 then
                 (if Total (AssetParams (Txn stxn)) \<noteq> 0 then
                    updateAsset (Sender (Txn stxn)) assetId
                      (to_int64 (Total (AssetParams (Txn stxn)))) a2
                  else a2)
               else a2))"

text \<open>Lines 175-186: an asset transfer.\<close>

definition AddTransaction_axfer :: "SignedTxnInBlock \<Rightarrow> AccountingState \<Rightarrow> AccountingState" where
  "AddTransaction_axfer stxn accounting =
     (let sender = (if AssetSender (Txn stxn) = 0 then Sender (Txn stxn)
                    else AssetSender (Txn stxn));
          a1 = (if AssetAmount (Txn stxn) \<noteq> 0 then
                  updateAsset (AssetReceiver (Txn stxn)) (XferAsset (Txn stxn))
                      (to_int64 (AssetAmount (Txn stxn)))
                    (updateAsset sender (XferAsset (Txn stxn))
                      (- to_int64 (AssetAmount (Txn stxn))) accounting)
                else accounting)
      in if AssetCloseTo (Txn stxn) \<noteq> 0 then
           closeAsset sender (XferAsset (Txn stxn)) (AssetCloseTo (Txn stxn)) a1
         else a1)"

text \<open>
  The whole of \<^verbatim>\<open>AddTransaction\<close>: decode, round check, fee, then the deltas of the
  transaction's type. The unknown type is found only after the fee has been booked.
\<close>

definition AddTransaction :: "(stmt \<Rightarrow> outcome) \<Rightarrow> AccountingState \<Rightarrow> DbState \<Rightarrow> uint64 \<Rightarrow> goint
    \<Rightarrow> SignedTxnInBlock blob \<Rightarrow> error option \<times> AccountingState \<times> DbState" where
  "AddTransaction fails accounting db round intra txnbytes =
     (case txnbytes of
        Garbled \<Rightarrow> (Some (FailedDecode round intra), accounting, db)
      | Enc stxn \<Rightarrow>
          (case AddTransaction_round fails accounting db round of
             (Some err, accounting', db') \<Rightarrow> (Some err, accounting', db')
           | (None, accounting', db') \<Rightarrow>
               (let a = AddTransaction_fee stxn accounting'
                in if Type (Txn stxn) = ''pay'' then (None, AddTransaction_pay stxn a, db')
                   else if Type (Txn stxn) = ''keyreg'' then (None, a, db')
                   else if Type (Txn stxn) = ''acfg'' then
                     (None, AddTransaction_acfg intra stxn a, db')
                   else if Type (Txn stxn) = ''axfer'' then
                     (None, AddTransaction_axfer stxn a, db')
                   else if Type (Txn stxn) = ''afrz'' then
                     (None, freezeAsset (FreezeAccount (Txn stxn)) (FreezeAsset (Txn stxn))
                              (AssetFrozen (Txn stxn)) a, db')
                   else (Some (UnknownType round intra (Type (Txn stxn))), a, db'))))"

section \<open>The transaction cursor (idb/postgres.go, lines 197-233)\<close>

text \<open>
  What \<^verbatim>\<open>yieldTxnsThread\<close> sends on the channel, as a list. Its input is what the
  loop meets: for each row that \<^verbatim>\<open>rows.Next()\<close> delivers, the outcome of
  \<^verbatim>\<open>rows.Scan\<close> and the branch that the \<^verbatim>\<open>select\<close> takes; and the reason why
  \<^verbatim>\<open>rows.Next()\<close> returns false in the end. A \<^verbatim>\<open>break\<close> inside a \<^verbatim>\<open>select\<close>
  leaves the \<^verbatim>\<open>select\<close>, so both of them go on with the next row; \<^verbatim>\<open>rows.Err()\<close>
  is never read.
\<close>

record TxnRow =
  Round :: uint64
  Intra :: goint
  TxnBytes :: "SignedTxnInBlock blob option"
  Error :: "error option"

datatype scan = ScanOk uint64 goint "SignedTxnInBlock blob" | ScanErr

datatype select_branch = CtxDone | Sent

datatype next_end = Exhausted | NextFailed

definition zeroRow :: TxnRow where
  "zeroRow = \<lparr>Round = 0, Intra = 0, TxnBytes = None, Error = None\<rparr>"

fun yieldTxnsThread :: "(scan \<times> select_branch) list \<Rightarrow> next_end \<Rightarrow> TxnRow list" where
  "yieldTxnsThread [] ended = []"
| "yieldTxnsThread ((sc, branch) # rest) ended =
     (let row = (case sc of
                   ScanErr \<Rightarrow> zeroRow\<lparr>Error := Some ErrScan\<rparr>
                 | ScanOk round intra txnbytes \<Rightarrow>
                     zeroRow\<lparr>Round := round, Intra := intra, TxnBytes := Some txnbytes\<rparr>)
      in case branch of
           CtxDone \<Rightarrow> yieldTxnsThread rest ended
         | Sent \<Rightarrow> row # yieldTxnsThread rest ended)"

datatype query_result = QueryFailed | Rows "(scan \<times> select_branch) list" next_end

definition YieldTxns :: "query_result \<Rightarrow> TxnRow list" where
  "YieldTxns q =
     (case q of
        QueryFailed \<Rightarrow> [zeroRow\<lparr>Error := Some ErrQuery\<rparr>]
      | Rows rows ended \<Rightarrow> yieldTxnsThread rows ended)"

section \<open>Reading the watermark\<close>

text \<open>
  The coordinator (\<^verbatim>\<open>updateAccounting\<close>) reads the watermark with
  \<^verbatim>\<open>GetMetastate("state")\<close> and \<^verbatim>\<open>ParseImportState\<close>: the \<^verbatim>\<open>AccountRound\<close> of the
  stored document, when there is one and it decodes.
\<close>

definition account_round :: "DbState \<Rightarrow> int64 option" where
  "account_round db =
     (case map_of (metastate db) ''state'' of
        Some (Enc istate) \<Rightarrow> Some (AccountRound istate)
      | _ \<Rightarrow> None)"

section \<open>Concrete inputs\<close>

text \<open>The inputs at which the theorems below evaluate the program.\<close>

definition noFault :: "stmt \<Rightarrow> outcome" where
  "noFault s = Done"

definition zeroTxn :: Transaction where
  "zeroTxn = \<lparr>Type = [], Sender = 0, Fee = 0, Amount = 0, Receiver = 0, CloseRemainderTo = 0,
     ConfigAsset = 0, AssetParams = \<lparr>Total = 0, DefaultFrozen = False, OtherParams = []\<rparr>,
     XferAsset = 0, AssetAmount = 0, AssetSender = 0, AssetReceiver = 0, AssetCloseTo = 0,
     FreezeAccount = 0, FreezeAsset = 0, AssetFrozen = False\<rparr>"

definition zeroStxn :: SignedTxnInBlock where
  "zeroStxn = \<lparr>Txn = zeroTxn, SenderRewards = 0, ReceiverRewards = 0, ClosingAmount = 0,
     CloseRewards = 0\<rparr>"

definition emptyDb :: DbState where
  "emptyDb = \<lparr>account = [], asset = [], account_asset = [], metastate = [], block_header = []\<rparr>"

text \<open>A payment of 200 from address 1 to address 2 with fee 10 and no rewards.\<close>

definition payment :: SignedTxnInBlock where
  "payment = zeroStxn\<lparr>Txn := zeroTxn\<lparr>Type := ''pay'', Sender := 1, Receiver := 2,
     Fee := 10, Amount := 200\<rparr>\<rparr>"

text \<open>A transaction of a type the engine does not know, with fee 10.\<close>

definition strangeTxn :: SignedTxnInBlock where
  "strangeTxn = zeroStxn\<lparr>Txn := zeroTxn\<lparr>Type := ''xyz'', Sender := 1, Fee := 10\<rparr>\<rparr>"

text \<open>The creation of an asset with total supply \<open>2 ^ 63\<close> and of one with supply 1000.\<close>

definition bigCreate :: SignedTxnInBlock where
  "bigCreate = zeroStxn\<lparr>Txn := zeroTxn\<lparr>Type := ''acfg'', Sender := 1, Fee := 10,
     AssetParams := \<lparr>Total = 9223372036854775808, DefaultFrozen = False, OtherParams = []\<rparr>\<rparr>\<rparr>"

definition smallCreate :: SignedTxnInBlock where
  "smallCreate = zeroStxn\<lparr>Txn := zeroTxn\<lparr>Type := ''acfg'', Sender := 1, Fee := 10,
     AssetParams := \<lparr>Total = 1000, DefaultFrozen = True, OtherParams = []\<rparr>\<rparr>\<rparr>"

text \<open>
  A database that holds the block headers of rounds 0 and 1, both with fee sink 9,
  rewards pool 8 and rewards level 7.
\<close>

definition headersDb :: DbState where
  "headersDb = emptyDb\<lparr>block_header :=
     [(0, Enc \<lparr>FeeSink = 9, RewardsPool = 8, RewardsLevel = 7\<rparr>),
      (1, Enc \<lparr>FeeSink = 9, RewardsPool = 8, RewardsLevel = 7\<rparr>)]\<rparr>"

text \<open>A database whose watermark is round 3.\<close>

definition watermarkDb :: DbState where
  "watermarkDb = emptyDb\<lparr>metastate := [(''state'', Enc \<lparr>AccountRound = 3\<rparr>)]\<rparr>"

text \<open>
  Address 1 holds 5 units of asset 8 and no asset 7, address 3 holds 100 units of
  asset 7; the batch closes address 1's holding of asset 7 to address 2.
\<close>

definition holdingsDb :: DbState where
  "holdingsDb = emptyDb\<lparr>account_asset :=
     [((1, 8), \<lparr>amount = 5, frozen = Some False\<rparr>),
      ((3, 7), \<lparr>amount = 100, frozen = Some False\<rparr>)]\<rparr>"

definition closeBatch :: RoundUpdates where
  "closeBatch = noUpdates\<lparr>AssetCloses := [AssetClose 2 7 1]\<rparr>"

text \<open>
  The batch that destroys asset 7, and the two faults in which exactly that delete
  fails: refused before it is sent, or failing on the server.
\<close>

definition destroyBatch :: RoundUpdates where
  "destroyBatch = noUpdates\<lparr>AssetDestroys := [7]\<rparr>"

definition destroyFails :: "stmt \<Rightarrow> outcome" where
  "destroyFails s = (if s = ExecDestroy 7 then Refused else Done)"

definition destroyAborts :: "stmt \<Rightarrow> outcome" where
  "destroyAborts s = (if s = ExecDestroy 7 then Aborted else Done)"

definition beginFails :: "stmt \<Rightarrow> outcome" where
  "beginFails s = (if s = Begin then Refused else Done)"

text \<open>An engine in round 5 whose batch holds one algo delta.\<close>

definition round5 :: AccountingState where
  "round5 = New\<lparr>currentRound := 5, updates := noUpdates\<lparr>AlgoUpdates := [(1, 10)]\<rparr>\<rparr>"

text \<open>
  The engine after the payment, after the transaction of unknown type and after the
  creation of the asset with supply 1000, each as the first transaction of round 1 on
  \<open>headersDb\<close>.
\<close>

definition afterPayment :: AccountingState where
  "afterPayment = New\<lparr>currentRound := 1, feeAddr := 9, rewardAddr := 8, rewardsLevel := 7,
     updates := noUpdates\<lparr>AlgoUpdates := [(1, - 210), (9, 10), (2, 200)]\<rparr>\<rparr>"

definition afterStrange :: AccountingState where
  "afterStrange = New\<lparr>currentRound := 1, feeAddr := 9, rewardAddr := 8, rewardsLevel := 7,
     updates := noUpdates\<lparr>AlgoUpdates := [(1, - 10), (9, 10)]\<rparr>\<rparr>"

definition afterSmallCreate :: AccountingState where
  "afterSmallCreate = New\<lparr>currentRound := 1, feeAddr := 9, rewardAddr := 8, rewardsLevel := 7,
     defaultFrozen := [1 \<mapsto> True],
     updates := noUpdates\<lparr>AlgoUpdates := [(1, - 10), (9, 10)],
       AcfgUpdates := [AcfgUpdate 1 1 \<lparr>Total = 1000, DefaultFrozen = True, OtherParams = []\<rparr>],
       AssetUpdates := [AssetUpdate 1 1 1000 True]\<rparr>\<rparr>"

text \<open>Address 1 holds assets 7 and 8.\<close>

definition twoHoldingsDb :: DbState where
  "twoHoldingsDb = emptyDb\<lparr>account_asset :=
     [((1, 7), \<lparr>amount = 30, frozen = Some False\<rparr>),
      ((1, 8), \<lparr>amount = 5, frozen = Some False\<rparr>)]\<rparr>"

text \<open>
  The close-out of asset 7 by address 1 to address 2, with no amount and no fee: the
  transaction that puts the closure of \<open>closeBatch\<close> into the batch.
\<close>

definition closeOut :: SignedTxnInBlock where
  "closeOut = zeroStxn\<lparr>Txn := zeroTxn\<lparr>Type := ''axfer'', Sender := 1, XferAsset := 7,
     AssetCloseTo := 2\<rparr>\<rparr>"

lemmas engine_defs = AddTransaction_def AddTransaction_round_def AddTransaction_fee_def
  AddTransaction_pay_def AddTransaction_acfg_def AddTransaction_axfer_def
  commitRound_def initRound_def GetBlock_def updateAlgo_def updateAsset_def closeAsset_def
  freezeAsset_def destroyAsset_def algoDelta_def to_int64_def to_uint64_def IsZero_def
  New_def noUpdates_def Let_def

lemmas commit_defs = CommitRoundAccounting_def setalgo_block_def setacfg_block_def
  seta_block_def fr_block_def closes_block_def destroys_block_def state_block_def
  any_updates_def bindE_def upsert_def acs_exec_def acd_exec_def account_round_def

lemmas input_defs = noFault_def zeroTxn_def zeroStxn_def emptyDb_def payment_def
  strangeTxn_def bigCreate_def smallCreate_def headersDb_def watermarkDb_def holdingsDb_def
  closeBatch_def destroyBatch_def destroyFails_def destroyAborts_def beginFails_def round5_def
  afterPayment_def afterStrange_def afterSmallCreate_def twoHoldingsDb_def closeOut_def

section \<open>Fields that the bookkeeping steps leave alone\<close>

lemma updateAlgo_fields [simp]:
  "txnCounter (updateAlgo a d s) = txnCounter s"
  "feeAddr (updateAlgo a d s) = feeAddr s"
  "rewardAddr (updateAlgo a d s) = rewardAddr s"
  "rewardsLevel (updateAlgo a d s) = rewardsLevel s"
  "currentRound (updateAlgo a d s) = currentRound s"
  "defaultFrozen (updateAlgo a d s) = defaultFrozen s"
  by (simp_all add: updateAlgo_def)

lemma updateAsset_fields [simp]:
  "txnCounter (updateAsset a i d s) = txnCounter s"
  "feeAddr (updateAsset a i d s) = feeAddr s"
  "rewardAddr (updateAsset a i d s) = rewardAddr s"
  "rewardsLevel (updateAsset a i d s) = rewardsLevel s"
  "currentRound (updateAsset a i d s) = currentRound s"
  "defaultFrozen (updateAsset a i d s) = defaultFrozen s"
  by (simp_all add: updateAsset_def)

lemma closeAsset_fields [simp]:
  "txnCounter (closeAsset a i c s) = txnCounter s"
  "feeAddr (closeAsset a i c s) = feeAddr s"
  "rewardAddr (closeAsset a i c s) = rewardAddr s"
  "rewardsLevel (closeAsset a i c s) = rewardsLevel s"
  "currentRound (closeAsset a i c s) = currentRound s"
  by (simp_all add: closeAsset_def)

lemma freezeAsset_fields [simp]:
  "txnCounter (freezeAsset a i f s) = txnCounter s"
  "feeAddr (freezeAsset a i f s) = feeAddr s"
  "rewardAddr (freezeAsset a i f s) = rewardAddr s"
  "rewardsLevel (freezeAsset a i f s) = rewardsLevel s"
  "currentRound (freezeAsset a i f s) = currentRound s"
  by (simp_all add: freezeAsset_def)

lemma destroyAsset_fields [simp]:
  "txnCounter (destroyAsset i s) = txnCounter s"
  "feeAddr (destroyAsset i s) = feeAddr s"
  "rewardAddr (destroyAsset i s) = rewardAddr s"
  "rewardsLevel (destroyAsset i s) = rewardsLevel s"
  "currentRound (destroyAsset i s) = currentRound s"
  by (simp_all add: destroyAsset_def)

lemma fee_fields [simp]:
  "txnCounter (AddTransaction_fee stxn s) = txnCounter s"
  "feeAddr (AddTransaction_fee stxn s) = feeAddr s"
  "rewardAddr (AddTransaction_fee stxn s) = rewardAddr s"
  "rewardsLevel (AddTransaction_fee stxn s) = rewardsLevel s"
  "currentRound (AddTransaction_fee stxn s) = currentRound s"
  by (simp_all add: AddTransaction_fee_def Let_def)

lemma pay_fields [simp]:
  "txnCounter (AddTransaction_pay stxn s) = txnCounter s"
  "feeAddr (AddTransaction_pay stxn s) = feeAddr s"
  "rewardAddr (AddTransaction_pay stxn s) = rewardAddr s"
  "rewardsLevel (AddTransaction_pay stxn s) = rewardsLevel s"
  "currentRound (AddTransaction_pay stxn s) = currentRound s"
  by (simp_all add: AddTransaction_pay_def Let_def)

lemma acfg_fields [simp]:
  "txnCounter (AddTransaction_acfg i stxn s) = txnCounter s"
  "feeAddr (AddTransaction_acfg i stxn s) = feeAddr s"
  "rewardAddr (AddTransaction_acfg i stxn s) = rewardAddr s"
  "rewardsLevel (AddTransaction_acfg i stxn s) = rewardsLevel s"
  "currentRound (AddTransaction_acfg i stxn s) = currentRound s"
  by (simp_all add: AddTransaction_acfg_def Let_def)

lemma axfer_fields [simp]:
  "txnCounter (AddTransaction_axfer stxn s) = txnCounter s"
  "feeAddr (AddTransaction_axfer stxn s) = feeAddr s"
  "rewardAddr (AddTransaction_axfer stxn s) = rewardAddr s"
  "rewardsLevel (AddTransaction_axfer stxn s) = rewardsLevel s"
  "currentRound (AddTransaction_axfer stxn s) = currentRound s"
  by (simp_all add: AddTransaction_axfer_def Let_def)

lemma commitRound_keeps:
  "commitRound fails s db = (e, s', db') \<Longrightarrow>
     txnCounter s' = txnCounter s \<and> feeAddr s' = feeAddr s \<and> rewardAddr s' = rewardAddr s
     \<and> rewardsLevel s' = rewardsLevel s \<and> currentRound s' = currentRound s"
  by (auto simp: commitRound_def split: prod.splits option.splits)

lemma initRound_txnCounter:
  "initRound fails s db r = (e, s') \<Longrightarrow> txnCounter s' = txnCounter s"
  by (auto simp: initRound_def split: sum.splits)

lemma round_txnCounter:
  "AddTransaction_round fails s db r = (e, s', db') \<Longrightarrow> txnCounter s' = txnCounter s"
  by (auto simp: AddTransaction_round_def split: if_splits prod.splits option.splits
      dest!: commitRound_keeps initRound_txnCounter)

lemma AddTransaction_keeps_txnCounter:
  "txnCounter (fst (snd (AddTransaction fails s db r i b))) = txnCounter s"
  by (cases b) (auto simp: AddTransaction_def Let_def split: prod.splits option.splits
      dest!: round_txnCounter)

lemma yieldTxnsThread_ignores_end:
  "yieldTxnsThread rows NextFailed = yieldTxnsThread rows Exhausted"
  by (induction rows) (auto simp: Let_def split: select_branch.splits)

section \<open>Words\<close>

lemma sint_small: "uint (w :: 64 word) < 2 ^ 63 \<Longrightarrow> sint w = uint w"
proof -
  assume a: "uint w < 2 ^ 63"
  have "- (2 ^ 63) \<le> uint w"
    by (rule order_trans [of _ 0]) simp_all
  then have "signed_take_bit 63 (uint w) = uint w"
    using a by (rule signed_take_bit_int_eq_self)
  then show ?thesis
    by (simp add: sint_uint)
qed

lemma uint_add3:
  "uint (c :: 64 word) + uint (i :: 64 word) + 1 < 2 ^ 64 \<Longrightarrow>
     uint (c + i + 1) = uint c + uint i + 1"
  by (simp add: uint_word_ariths take_bit_int_eq_self)

section \<open>The commit: rollback, the empty batch, the watermark\<close>

lemma map_of_upsert_same:
  "map_of (upsert k new upd t) k = Some (case map_of t k of None \<Rightarrow> new | Some old \<Rightarrow> upd old)"
  by (auto simp: upsert_def update_conv' map_add_def split: option.splits)

lemma commit_error_rolls_back:
  "CommitRoundAccounting fails u r rb db = (Some e, db') \<Longrightarrow> db' = db"
  by (auto simp: CommitRoundAccounting_def split: if_splits sum.splits)

lemma empty_blocks:
  "\<not> any_updates u \<Longrightarrow> setalgo_block fails u rb tx = Inr tx"
  "\<not> any_updates u \<Longrightarrow> setacfg_block fails u tx = Inr tx"
  "\<not> any_updates u \<Longrightarrow> seta_block fails u tx = Inr tx"
  "\<not> any_updates u \<Longrightarrow> fr_block fails u tx = Inr tx"
  "\<not> any_updates u \<Longrightarrow> closes_block fails u tx = Inr tx"
  "\<not> any_updates u \<Longrightarrow> destroys_block fails u tx = Inr (tx, False)"
  by (simp_all add: any_updates_def setalgo_block_def setacfg_block_def seta_block_def
      fr_block_def closes_block_def destroys_block_def)

lemma empty_commit:
  "\<not> any_updates u \<Longrightarrow>
     CommitRoundAccounting fails u round rewardsBase db =
       (if fails Begin \<noteq> Done then Some ErrBegin else None, db)"
  by (simp add: CommitRoundAccounting_def empty_blocks bindE_def)

lemma state_block_account_round:
  "state_block fails round tx aborted = Inr tx' \<Longrightarrow> account_round tx' = Some (to_int64 round)"
  by (auto simp: state_block_def account_round_def map_of_upsert_same
      split: if_splits sum.splits option.splits blob.splits)

lemma commit_success_watermark:
  "CommitRoundAccounting fails u r rb db = (None, db') \<Longrightarrow> any_updates u \<Longrightarrow>
     account_round db' = Some (to_int64 r)"
  by (auto simp: CommitRoundAccounting_def split: if_splits sum.splits
      dest: state_block_account_round)

section \<open>The deltas of one transaction\<close>

lemma algoDelta_updateAlgo:
  "algoDelta (AlgoUpdates (updates (updateAlgo a d s))) b =
     algoDelta (AlgoUpdates (updates s)) b + (if b = a then d else 0)"
  by (simp add: updateAlgo_def algoDelta_def update_conv')

lemma updateAlgo_other_categories [simp]:
  "AssetUpdates (updates (updateAlgo a d s)) = AssetUpdates (updates s)"
  "AcfgUpdates (updates (updateAlgo a d s)) = AcfgUpdates (updates s)"
  "FreezeUpdates (updates (updateAlgo a d s)) = FreezeUpdates (updates s)"
  "AssetCloses (updates (updateAlgo a d s)) = AssetCloses (updates s)"
  "AssetDestroys (updates (updateAlgo a d s)) = AssetDestroys (updates s)"
  by (simp_all add: updateAlgo_def)

lemma fee_other_categories [simp]:
  "AssetUpdates (updates (AddTransaction_fee stxn s)) = AssetUpdates (updates s)"
  "AcfgUpdates (updates (AddTransaction_fee stxn s)) = AcfgUpdates (updates s)"
  "FreezeUpdates (updates (AddTransaction_fee stxn s)) = FreezeUpdates (updates s)"
  "AssetCloses (updates (AddTransaction_fee stxn s)) = AssetCloses (updates s)"
  "AssetDestroys (updates (AddTransaction_fee stxn s)) = AssetDestroys (updates s)"
  "defaultFrozen (AddTransaction_fee stxn s) = defaultFrozen s"
  by (simp_all add: AddTransaction_fee_def Let_def)

lemma fee_step_delta:
  "algoDelta (AlgoUpdates (updates (AddTransaction_fee stxn s))) a =
     algoDelta (AlgoUpdates (updates s)) a
     + (if a = Sender (Txn stxn)
        then to_int64 (SenderRewards stxn) - to_int64 (Fee (Txn stxn)) else 0)
     + (if a = feeAddr s then to_int64 (Fee (Txn stxn)) else 0)
     - (if a = rewardAddr s then to_int64 (SenderRewards stxn) else 0)"
  by (simp add: AddTransaction_fee_def Let_def algoDelta_updateAlgo to_int64_def)

lemma pay_step_delta:
  "algoDelta (AlgoUpdates (updates (AddTransaction_pay stxn s))) a =
     algoDelta (AlgoUpdates (updates s)) a
     + (if a = Sender (Txn stxn)
        then - to_int64 (Amount (Txn stxn)) - to_int64 (ClosingAmount stxn) else 0)
     + (if a = Receiver (Txn stxn)
        then to_int64 (Amount (Txn stxn)) + to_int64 (ReceiverRewards stxn) else 0)
     + (if a = CloseRemainderTo (Txn stxn)
        then to_int64 (ClosingAmount stxn) + to_int64 (CloseRewards stxn) else 0)
     - (if a = rewardAddr s
        then to_int64 (ReceiverRewards stxn) + to_int64 (CloseRewards stxn) else 0)"
  by (simp add: AddTransaction_pay_def Let_def algoDelta_updateAlgo to_int64_def)

lemma other_steps_algo [simp]:
  "AlgoUpdates (updates (AddTransaction_acfg i stxn s)) = AlgoUpdates (updates s)"
  "AlgoUpdates (updates (AddTransaction_axfer stxn s)) = AlgoUpdates (updates s)"
  "AlgoUpdates (updates (freezeAsset a n f s)) = AlgoUpdates (updates s)"
  by (simp_all add: AddTransaction_acfg_def AddTransaction_axfer_def freezeAsset_def
      updateAsset_def closeAsset_def destroyAsset_def Let_def)

lemma AddTransaction_cases:
  assumes "AddTransaction fails s db round intra (Enc stxn) = (e, s', db')"
  obtains (round_error) err where "AddTransaction_round fails s db round = (Some err, s', db')"
      "e = Some err"
    | (processed) s1 where "AddTransaction_round fails s db round = (None, s1, db')"
      "(e, s') =
         (let a = AddTransaction_fee stxn s1
          in if Type (Txn stxn) = ''pay'' then (None, AddTransaction_pay stxn a)
             else if Type (Txn stxn) = ''keyreg'' then (None, a)
             else if Type (Txn stxn) = ''acfg'' then (None, AddTransaction_acfg intra stxn a)
             else if Type (Txn stxn) = ''axfer'' then (None, AddTransaction_axfer stxn a)
             else if Type (Txn stxn) = ''afrz'' then
               (None, freezeAsset (FreezeAccount (Txn stxn)) (FreezeAsset (Txn stxn))
                        (AssetFrozen (Txn stxn)) a)
             else (Some (UnknownType round intra (Type (Txn stxn))), a))"
  using assms
  by (auto simp: AddTransaction_def Let_def split: prod.splits option.splits if_splits)

lemma round_error_shape:
  "AddTransaction_round fails s db round = (Some err, s', db') \<Longrightarrow>
     (\<exists>r e. err = AddTxCommitRound r e) \<or> (\<exists>r e. err = AddTxInitRound r e)"
  by (auto simp: AddTransaction_round_def split: if_splits prod.splits option.splits)


lemma acfg_creation_batch:
  assumes "ConfigAsset (Txn stxn) = 0"
  shows "let assetId = txnCounter s + to_uint64 intra + 1; p = AssetParams (Txn stxn);
             s' = AddTransaction_acfg intra stxn s
         in if IsZero p then
              AssetDestroys (updates s') = AssetDestroys (updates s) @ [assetId]
              \<and> AcfgUpdates (updates s') = AcfgUpdates (updates s)
              \<and> AssetUpdates (updates s') = AssetUpdates (updates s)
            else
              AcfgUpdates (updates s') =
                AcfgUpdates (updates s) @ [AcfgUpdate assetId (Sender (Txn stxn)) p]
              \<and> AssetDestroys (updates s') = AssetDestroys (updates s)
              \<and> AssetUpdates (updates s') =
                  (if Total p \<noteq> 0
                   then AssetUpdates (updates s) @
                          [AssetUpdate (Sender (Txn stxn)) assetId (to_int64 (Total p))
                             (DefaultFrozen p)]
                   else AssetUpdates (updates s))"
  using assms
  by (simp add: AddTransaction_acfg_def Let_def destroyAsset_def updateAsset_def)

section \<open>The first transaction of a round other than 0\<close>

lemma initRound_loads:
  "initRound fails s db round = (None, s') \<Longrightarrow>
     \<exists>block. map_of (block_header db) round = Some (Enc block) \<and> feeAddr s' = FeeSink block
       \<and> rewardAddr s' = RewardsPool block \<and> rewardsLevel s' = RewardsLevel block
       \<and> currentRound s' = round"
  by (auto simp: initRound_def GetBlock_def split: if_splits sum.splits option.splits blob.splits)

lemma first_round_loads_context:
  assumes "round \<noteq> 0"
    and "AddTransaction fails New db round intra (Enc stxn) = (None, s', db')"
  shows "\<exists>block. map_of (block_header db') round = Some (Enc block) \<and> feeAddr s' = FeeSink block
       \<and> rewardAddr s' = RewardsPool block \<and> rewardsLevel s' = RewardsLevel block
       \<and> currentRound s' = round"
  using assms(2)
proof (cases rule: AddTransaction_cases)
  case (round_error err)
  then show ?thesis by simp
next
  case (processed s1)
  from processed(2) have f: "feeAddr s' = feeAddr s1" "rewardAddr s' = rewardAddr s1"
    "rewardsLevel s' = rewardsLevel s1" "currentRound s' = currentRound s1"
    by (auto simp: Let_def split: if_splits)
  from assms(1) have "currentRound New \<noteq> round"
    by (simp add: New_def)
  with processed(1) obtain s0 where "initRound fails s0 db' round = (None, s1)"
    by (auto simp: AddTransaction_round_def split: prod.splits option.splits)
  from initRound_loads [OF this] f show ?thesis
    by simp
qed

section \<open>Closures\<close>

lemma acd_exec_removes_sender:
  "map_of (acd_exec sender t) (sender, assetId) = None"
  by (induction t) (auto simp: acd_exec_def)

lemma closeOut_records_closure:
  "AssetCloses (updates (AddTransaction_axfer closeOut s)) =
     AssetCloses (updates s) @ [AssetClose 2 7 1] \<and>
   AssetUpdates (updates (AddTransaction_axfer closeOut s)) = AssetUpdates (updates s)"
  by (simp add: AddTransaction_axfer_def closeAsset_def input_defs)

lemma close_with_two_holdings_fails:
  "CommitRoundAccounting noFault closeBatch 5 0 twoHoldingsDb = (Some ErrAssetCloseSend, twoHoldingsDb)"
  by (simp add: commit_defs input_defs noUpdates_def)

section \<open>The claims\<close>

text \<open>
  C1. Claim: for every asset closure (sender, asset, closeTo) of a committed round, the
  sender's holding row of that one asset is deleted, the sender's rows for other assets
  remain, and closeTo's holding of the asset grows by the sender's amount of that asset.
  The code does otherwise: neither statement of the closure names the asset on the
  sender's side. Here address 1 holds 5 units of asset 8 and nothing of asset 7, and
  closes asset 7 to address 2: the commit succeeds, address 1 loses its row for asset 8,
  and address 2 receives 5 units of asset 7.
\<close>

theorem close_takes_rows_of_other_assets:
  "map_of (account_asset holdingsDb) (1, 7) = None \<and>
   map_of (account_asset holdingsDb) (1, 8) = Some \<lparr>amount = 5, frozen = Some False\<rparr> \<and>
   map_of (account_asset holdingsDb) (2, 7) = None \<and>
   CommitRoundAccounting noFault closeBatch 5 0 holdingsDb =
     (None, holdingsDb\<lparr>account_asset :=
        [((3, 7), \<lparr>amount = 100, frozen = Some False\<rparr>), ((2, 7), \<lparr>amount = 5, frozen = None\<rparr>)],
        metastate := [(''state'', Enc \<lparr>AccountRound = 5\<rparr>)]\<rparr>)"
  by (simp add: commit_defs input_defs to_int64_def noUpdates_def)

text \<open>
  C2. Claim: when any step of the commit fails, the operation returns an error and
  nothing of the round is persisted, also when the step is the delete of an asset
  destruction. The code drops the result of that delete. When the delete is refused
  before it reaches the server and every other statement runs, the commit returns
  success, the watermark moves to the round, and the holdings of the destroyed asset
  (here the 100 units of asset 7 at address 3) stay. The third conjunct is the same
  commit without the fault. The fourth is the delete failing on the server: the code
  goes on as well, and the commit is stopped only by the next statement, the read of
  the watermark, which the aborted transaction refuses.
\<close>

theorem failed_destroy_is_committed:
  "destroyFails (ExecDestroy 7) = Refused \<and>
   CommitRoundAccounting destroyFails destroyBatch 5 0 holdingsDb =
     (None, holdingsDb\<lparr>metastate := [(''state'', Enc \<lparr>AccountRound = 5\<rparr>)]\<rparr>) \<and>
   CommitRoundAccounting noFault destroyBatch 5 0 holdingsDb =
     (None, holdingsDb\<lparr>account_asset := [((1, 8), \<lparr>amount = 5, frozen = Some False\<rparr>)],
        metastate := [(''state'', Enc \<lparr>AccountRound = 5\<rparr>)]\<rparr>) \<and>
   CommitRoundAccounting destroyAborts destroyBatch 5 0 holdingsDb =
     (Some ErrStateQuery, holdingsDb)"
  by (simp add: commit_defs input_defs to_int64_def noUpdates_def)

text \<open>
  C3. Claim: the running transaction counter grows and equals, whenever a transaction
  is processed, the number of transactions processed since genesis. In the code nothing
  ever writes \<^verbatim>\<open>txnCounter\<close>: it starts at 0, \<^verbatim>\<open>AddTransaction\<close> and \<^verbatim>\<open>Close\<close> leave
  it as it is, and after the first payment has been processed it is still 0.
\<close>

theorem txnCounter_never_advances:
  "txnCounter New = 0 \<and>
   txnCounter (fst (snd (AddTransaction fails s db round intra txnbytes))) = txnCounter s \<and>
   txnCounter (fst (snd (Close fails s db))) = txnCounter s \<and>
   (case AddTransaction noFault New headersDb 1 0 (Enc payment) of
      (e, s', db') \<Rightarrow> e = None \<and> txnCounter s' = 0)"
proof -
  have "txnCounter (fst (snd (Close fails s db))) = txnCounter s"
    by (cases "commitRound fails s db") (auto simp: Close_def dest: commitRound_keeps)
  moreover have "txnCounter New = 0"
    by (simp add: New_def)
  moreover have "case AddTransaction noFault New headersDb 1 0 (Enc payment) of
      (e, s', db') \<Rightarrow> e = None \<and> txnCounter s' = 0"
    by (simp add: engine_defs commit_defs input_defs)
  ultimately show ?thesis
    by (simp add: AddTransaction_keeps_txnCounter)
qed

text \<open>
  C4. Claim: for every batch and round, after a successful CommitRound the persisted
  watermark equals the round and the engine's batch is empty. As stated it fails for
  the empty batch, which the code commits without writing (the guard \<^verbatim>\<open>if !any\<close>):
  an engine in round 5 with nothing pending commits successfully and the watermark
  stays at 3.
\<close>

theorem empty_commit_leaves_watermark:
  "commitRound noFault (New\<lparr>currentRound := 5\<rparr>) watermarkDb =
     (None, New\<lparr>currentRound := 5\<rparr>, watermarkDb) \<and>
   account_round watermarkDb = Some 3 \<and>
   account_round watermarkDb \<noteq> Some (to_int64 5)"
  by (simp add: engine_defs commit_defs input_defs)

text \<open>
  C4, amended. After a successful commit the engine's batch is empty. When the batch
  was not empty, the persisted watermark is the round (stored as \<^verbatim>\<open>int64(round)\<close>,
  which is the round itself for every round below \<open>2 ^ 63\<close>); when the batch was
  empty, the database is as it was.
\<close>

theorem commitRound_success:
  assumes "commitRound fails s db = (None, s', db')"
  shows "updates s' = noUpdates \<and>
    (if any_updates (updates s)
     then account_round db' = Some (to_int64 (currentRound s)) \<and>
          (uint (currentRound s) < 2 ^ 63 \<longrightarrow>
             sint (to_int64 (currentRound s)) = uint (currentRound s))
     else db' = db)"
proof -
  from assms have c:
    "CommitRoundAccounting fails (updates s) (currentRound s) (rewardsLevel s) db = (None, db')"
    and u: "updates s' = noUpdates"
    by (auto simp: commitRound_def split: prod.splits option.splits)
  show ?thesis
  proof (cases "any_updates (updates s)")
    case True
    with c have "account_round db' = Some (to_int64 (currentRound s))"
      by (rule commit_success_watermark)
    with True u show ?thesis
      by (simp add: to_int64_def sint_small)
  next
    case False
    with c have "db' = db"
      by (simp add: empty_commit split: if_splits)
    with False u show ?thesis by simp
  qed
qed

theorem commitRound_success_witness:
  "commitRound noFault round5 watermarkDb =
     (None, round5\<lparr>updates := noUpdates\<rparr>,
      watermarkDb\<lparr>account := [(1, \<lparr>microalgos = 10, rewardsbase = 0, account_data = None\<rparr>)],
        metastate := [(''state'', Enc \<lparr>AccountRound = 5\<rparr>)]\<rparr>) \<and>
   any_updates (updates round5) \<and> currentRound round5 = 5 \<and>
   account_round (watermarkDb\<lparr>account := [(1, \<lparr>microalgos = 10, rewardsbase = 0, account_data = None\<rparr>)],
        metastate := [(''state'', Enc \<lparr>AccountRound = 5\<rparr>)]\<rparr>) = Some 5"
proof -
  have h: "commitRound noFault round5 watermarkDb =
     (None, round5\<lparr>updates := noUpdates\<rparr>,
      watermarkDb\<lparr>account := [(1, \<lparr>microalgos = 10, rewardsbase = 0, account_data = None\<rparr>)],
        metastate := [(''state'', Enc \<lparr>AccountRound = 5\<rparr>)]\<rparr>)"
    by (simp add: engine_defs commit_defs input_defs)
  have a: "any_updates (updates round5)" and r: "currentRound round5 = 5"
    by (simp_all add: any_updates_def round5_def New_def noUpdates_def)
  from commitRound_success [OF h] a r show ?thesis
    using h by (simp add: to_int64_def)
qed

text \<open>
  C5. Claim: an asset configuration with target id 0 and non-zero total supply \<open>T\<close>,
  at intra-round index \<open>i\<close> with transaction counter \<open>c\<close>, is given the id
  \<open>c + i + 1\<close>, appends a parameter upsert and records a holding delta that credits
  the creator with exactly \<open>T\<close>; with zero parameters it records a destruction
  instead. The code means to give the whole supply to the creator, but the delta it
  records is \<^verbatim>\<open>int64(Total)\<close>: for the supply \<open>2 ^ 63\<close> the recorded delta is
  \<open>- (2 ^ 63)\<close>, which the commit then writes as the creator's holding.
\<close>

theorem large_supply_credit_is_negative:
  "(case AddTransaction noFault New headersDb 1 0 (Enc bigCreate) of
      (e, s, db) \<Rightarrow> e = None \<and>
        AssetUpdates (updates s) =
          [AssetUpdate 1 1 (to_int64 (Total (AssetParams (Txn bigCreate)))) False] \<and>
        (case Close noFault s db of
           (e', s', db') \<Rightarrow> e' = None \<and>
             map_of (account_asset db') (1, 1) =
               Some \<lparr>amount = - 9223372036854775808, frozen = Some False\<rparr>)) \<and>
   uint (Total (AssetParams (Txn bigCreate))) = 9223372036854775808 \<and>
   sint (to_int64 (Total (AssetParams (Txn bigCreate)))) = - 9223372036854775808"
  by (simp add: engine_defs commit_defs input_defs Close_def)

text \<open>
  What the code does for an asset configuration with target id 0 that is processed
  successfully: the asset id is \<open>c + i + 1\<close> in \<^verbatim>\<open>uint64\<close> arithmetic (the number
  \<open>c + i + 1\<close> when that is below \<open>2 ^ 64\<close>), where \<open>c\<close> is \<^verbatim>\<open>txnCounter\<close>. With
  zero parameters the batch gains the destruction of that id and nothing else of these
  three categories. Otherwise it gains the parameter upsert (id, sender, parameters)
  and, when the total \<open>T\<close> is not 0, the holding delta (sender, id, \<^verbatim>\<open>int64(T)\<close>, the
  parameters' default frozen flag); \<^verbatim>\<open>int64(T)\<close> is \<open>T\<close> whenever \<open>T < 2 ^ 63\<close>. Here
  \<open>s1\<close> is the engine after the round check.
\<close>

theorem asset_creation:
  assumes "AddTransaction fails s db round intra (Enc stxn) = (None, s', db')"
    and "Type (Txn stxn) = ''acfg''"
    and "ConfigAsset (Txn stxn) = 0"
  shows "let s1 = fst (snd (AddTransaction_round fails s db round));
             assetId = txnCounter s + to_uint64 intra + 1;
             p = AssetParams (Txn stxn)
         in (uint (txnCounter s) + uint (to_uint64 intra) + 1 < 2 ^ 64 \<longrightarrow>
               uint assetId = uint (txnCounter s) + uint (to_uint64 intra) + 1)
          \<and> (if IsZero p then
                AssetDestroys (updates s') = AssetDestroys (updates s1) @ [assetId]
                \<and> AcfgUpdates (updates s') = AcfgUpdates (updates s1)
                \<and> AssetUpdates (updates s') = AssetUpdates (updates s1)
              else
                AcfgUpdates (updates s') =
                  AcfgUpdates (updates s1) @ [AcfgUpdate assetId (Sender (Txn stxn)) p]
                \<and> AssetDestroys (updates s') = AssetDestroys (updates s1)
                \<and> AssetUpdates (updates s') =
                    (if Total p \<noteq> 0
                     then AssetUpdates (updates s1) @
                            [AssetUpdate (Sender (Txn stxn)) assetId (to_int64 (Total p))
                               (DefaultFrozen p)]
                     else AssetUpdates (updates s1))
                \<and> (uint (Total p) < 2 ^ 63 \<longrightarrow> sint (to_int64 (Total p)) = uint (Total p)))"
  using assms(1)
proof (cases rule: AddTransaction_cases)
  case (round_error err)
  then show ?thesis by simp
next
  case (processed s1)
  from processed(2) assms(2) have s': "s' = AddTransaction_acfg intra stxn (AddTransaction_fee stxn s1)"
    by (simp add: Let_def)
  have c: "txnCounter (AddTransaction_fee stxn s1) = txnCounter s"
    using round_txnCounter [OF processed(1)] by simp
  note b = acfg_creation_batch [OF assms(3), of "AddTransaction_fee stxn s1" intra,
      unfolded Let_def c, folded s']
  have id: "uint (txnCounter s) + uint (to_uint64 intra) + 1 < 2 ^ 64 \<longrightarrow>
      uint (txnCounter s + to_uint64 intra + 1) = uint (txnCounter s) + uint (to_uint64 intra) + 1"
    by (simp add: uint_add3)
  have sg: "uint (Total (AssetParams (Txn stxn))) < 2 ^ 63 \<longrightarrow>
      sint (to_int64 (Total (AssetParams (Txn stxn)))) = uint (Total (AssetParams (Txn stxn)))"
    by (simp add: to_int64_def sint_small)
  from b id sg processed(1) show ?thesis
    by (simp add: Let_def split: if_splits)
qed

theorem asset_creation_witness:
  "AddTransaction noFault New headersDb 1 0 (Enc smallCreate) = (None, afterSmallCreate, headersDb) \<and>
   Type (Txn smallCreate) = ''acfg'' \<and> ConfigAsset (Txn smallCreate) = 0 \<and>
   \<not> IsZero (AssetParams (Txn smallCreate)) \<and>
   AcfgUpdates (updates afterSmallCreate) =
     [AcfgUpdate 1 1 \<lparr>Total = 1000, DefaultFrozen = True, OtherParams = []\<rparr>] \<and>
   AssetUpdates (updates afterSmallCreate) = [AssetUpdate 1 1 1000 True] \<and>
   sint (to_int64 (Total (AssetParams (Txn smallCreate)))) = 1000"
proof -
  have h: "AddTransaction noFault New headersDb 1 0 (Enc smallCreate) =
      (None, afterSmallCreate, headersDb)"
    by (simp add: engine_defs commit_defs input_defs afterSmallCreate_def)
  have t: "Type (Txn smallCreate) = ''acfg''" and z: "ConfigAsset (Txn smallCreate) = 0"
    by (simp_all add: input_defs)
  have r: "AddTransaction_round noFault New headersDb 1 =
      (None, New\<lparr>currentRound := 1, feeAddr := 9, rewardAddr := 8, rewardsLevel := 7\<rparr>, headersDb)"
    by (simp add: engine_defs commit_defs input_defs)
  note c = asset_creation [OF h t z, unfolded Let_def r fst_conv snd_conv]
  from c h t z show ?thesis
    by (simp add: input_defs IsZero_def New_def noUpdates_def to_int64_def to_uint64_def)
qed

text \<open>
  C6. Claim: for every round, round 0 included, the first transaction the engine sees
  loads the round's context from the stored block header before deltas are applied. The
  code compares the round with \<^verbatim>\<open>currentRound\<close>, which a new engine has at 0: for a
  first transaction of round 0 \<^verbatim>\<open>initRound\<close> is not called. The stored header of round
  0 names fee sink 9, rewards pool 8 and rewards level 7; the engine keeps the zero
  values and books the fee of 10 to address 0. For a first transaction of round 1 the
  same header is loaded and the fee goes to address 9.
\<close>

theorem round_zero_context_not_loaded:
  "map_of (block_header headersDb) 0 = Some (Enc \<lparr>FeeSink = 9, RewardsPool = 8, RewardsLevel = 7\<rparr>) \<and>
   (case AddTransaction noFault New headersDb 0 0 (Enc payment) of
      (e, s, db) \<Rightarrow> e = None \<and> feeAddr s = 0 \<and> rewardAddr s = 0 \<and> rewardsLevel s = 0 \<and>
        AlgoUpdates (updates s) = [(1, - 210), (0, 10), (2, 200)]) \<and>
   (case AddTransaction noFault New headersDb 1 0 (Enc payment) of
      (e, s, db) \<Rightarrow> e = None \<and> feeAddr s = 9 \<and> rewardAddr s = 8 \<and> rewardsLevel s = 7 \<and>
        AlgoUpdates (updates s) = [(1, - 210), (9, 10), (2, 200)])"
  by (simp add: engine_defs commit_defs input_defs)

text \<open>
  C7. Claim: with an entirely empty batch CommitRound returns success and writes
  nothing. As stated it fails where the transaction cannot be opened: the code calls
  \<^verbatim>\<open>db.db.Begin()\<close> before it looks at the batch and returns its error.
\<close>

theorem empty_commit_can_fail:
  "CommitRoundAccounting beginFails noUpdates 5 0 watermarkDb = (Some ErrBegin, watermarkDb)"
  by (simp add: commit_defs input_defs)

text \<open>
  C7, amended. With an entirely empty batch CommitRound writes nothing: the database,
  its watermark included, is as it was; and the commit returns success unless opening
  the transaction fails, in which case it returns that error.
\<close>

theorem empty_batch_writes_nothing:
  "\<not> any_updates u \<Longrightarrow>
     CommitRoundAccounting fails u round rewardsBase db =
       (if fails Begin \<noteq> Done then Some ErrBegin else None, db)"
proof -
  assume e: "\<not> any_updates u"
  then have "bindE (setalgo_block fails u rewardsBase db) (\<lambda>tx.
             bindE (setacfg_block fails u tx) (\<lambda>tx.
             bindE (seta_block fails u tx) (\<lambda>tx.
             bindE (fr_block fails u tx) (\<lambda>tx.
             bindE (closes_block fails u tx) (\<lambda>tx.
             destroys_block fails u tx))))) = Inr (db, False)"
    by (simp add: empty_blocks bindE_def)
  with e show ?thesis
    by (simp add: CommitRoundAccounting_def)
qed

theorem empty_batch_writes_nothing_witness:
  "\<not> any_updates noUpdates \<and>
   CommitRoundAccounting noFault noUpdates 5 0 watermarkDb = (None, watermarkDb)"
proof -
  have h: "\<not> any_updates noUpdates"
    by (simp add: any_updates_def noUpdates_def)
  from empty_batch_writes_nothing [OF h, of noFault 5 0 watermarkDb] h show ?thesis
    by (simp add: noFault_def)
qed

text \<open>
  C8. For every successfully processed transaction the fee is booked first: in the
  state \<open>sf\<close> right after the fee step, the algo delta of the sender is lower by the
  fee, that of the engine's fee sink (\<^verbatim>\<open>feeAddr\<close>) higher by the fee, and a sender
  reward is added to the sender and taken from the rewards pool (\<^verbatim>\<open>rewardAddr\<close>); all
  in \<^verbatim>\<open>int64\<close> arithmetic, relative to the engine \<open>s1\<close> after the round check. The
  final state differs from \<open>sf\<close> in the algo deltas only by the payment's own deltas.
  Consequently a payment with fee 10, amount 200 and no rewards, booked into an empty
  batch with sender, receiver and fee sink distinct, leaves the deltas -210, +200, +10.
\<close>

theorem fee_accounting_first:
  assumes "AddTransaction fails s db round intra (Enc stxn) = (None, s', db')"
  shows "let s1 = fst (snd (AddTransaction_round fails s db round));
             sf = AddTransaction_fee stxn s1;
             t = Txn stxn
         in (\<forall>a. algoDelta (AlgoUpdates (updates sf)) a =
                 algoDelta (AlgoUpdates (updates s1)) a
                 + (if a = Sender t then to_int64 (SenderRewards stxn) - to_int64 (Fee t) else 0)
                 + (if a = feeAddr s1 then to_int64 (Fee t) else 0)
                 - (if a = rewardAddr s1 then to_int64 (SenderRewards stxn) else 0))
          \<and> (\<forall>a. algoDelta (AlgoUpdates (updates s')) a =
                 algoDelta (AlgoUpdates (updates sf)) a
                 + (if Type t = ''pay'' then
                      (if a = Sender t
                       then - to_int64 (Amount t) - to_int64 (ClosingAmount stxn) else 0)
                    + (if a = Receiver t
                       then to_int64 (Amount t) + to_int64 (ReceiverRewards stxn) else 0)
                    + (if a = CloseRemainderTo t
                       then to_int64 (ClosingAmount stxn) + to_int64 (CloseRewards stxn) else 0)
                    - (if a = rewardAddr s1
                       then to_int64 (ReceiverRewards stxn) + to_int64 (CloseRewards stxn) else 0)
                    else 0))
          \<and> (Type t = ''pay'' \<and> Fee t = 10 \<and> Amount t = 200 \<and> SenderRewards stxn = 0
              \<and> ReceiverRewards stxn = 0 \<and> ClosingAmount stxn = 0 \<and> CloseRewards stxn = 0
              \<and> AlgoUpdates (updates s1) = [] \<and> distinct [Sender t, Receiver t, feeAddr s1]
              \<longrightarrow> sint (algoDelta (AlgoUpdates (updates s')) (Sender t)) = - 210
                \<and> sint (algoDelta (AlgoUpdates (updates s')) (Receiver t)) = 200
                \<and> sint (algoDelta (AlgoUpdates (updates s')) (feeAddr s1)) = 10)"
  using assms
proof (cases rule: AddTransaction_cases)
  case (round_error err)
  then show ?thesis by simp
next
  case (processed s1)
  have fee: "\<forall>a. algoDelta (AlgoUpdates (updates (AddTransaction_fee stxn s1))) a =
                 algoDelta (AlgoUpdates (updates s1)) a
                 + (if a = Sender (Txn stxn)
                    then to_int64 (SenderRewards stxn) - to_int64 (Fee (Txn stxn)) else 0)
                 + (if a = feeAddr s1 then to_int64 (Fee (Txn stxn)) else 0)
                 - (if a = rewardAddr s1 then to_int64 (SenderRewards stxn) else 0)"
    by (simp add: fee_step_delta)
  have tdelta: "\<forall>a. algoDelta (AlgoUpdates (updates s')) a =
                 algoDelta (AlgoUpdates (updates (AddTransaction_fee stxn s1))) a
                 + (if Type (Txn stxn) = ''pay'' then
                      (if a = Sender (Txn stxn)
                       then - to_int64 (Amount (Txn stxn)) - to_int64 (ClosingAmount stxn) else 0)
                    + (if a = Receiver (Txn stxn)
                       then to_int64 (Amount (Txn stxn)) + to_int64 (ReceiverRewards stxn) else 0)
                    + (if a = CloseRemainderTo (Txn stxn)
                       then to_int64 (ClosingAmount stxn) + to_int64 (CloseRewards stxn) else 0)
                    - (if a = rewardAddr s1
                       then to_int64 (ReceiverRewards stxn) + to_int64 (CloseRewards stxn) else 0)
                    else 0)"
    using processed(2) by (auto simp: Let_def pay_step_delta split: if_splits)
  have scen: "Type (Txn stxn) = ''pay'' \<and> Fee (Txn stxn) = 10 \<and> Amount (Txn stxn) = 200
              \<and> SenderRewards stxn = 0
              \<and> ReceiverRewards stxn = 0 \<and> ClosingAmount stxn = 0 \<and> CloseRewards stxn = 0
              \<and> AlgoUpdates (updates s1) = []
              \<and> distinct [Sender (Txn stxn), Receiver (Txn stxn), feeAddr s1]
              \<longrightarrow> sint (algoDelta (AlgoUpdates (updates s')) (Sender (Txn stxn))) = - 210
                \<and> sint (algoDelta (AlgoUpdates (updates s')) (Receiver (Txn stxn))) = 200
                \<and> sint (algoDelta (AlgoUpdates (updates s')) (feeAddr s1)) = 10"
  proof
    assume h: "Type (Txn stxn) = ''pay'' \<and> Fee (Txn stxn) = 10 \<and> Amount (Txn stxn) = 200
              \<and> SenderRewards stxn = 0
              \<and> ReceiverRewards stxn = 0 \<and> ClosingAmount stxn = 0 \<and> CloseRewards stxn = 0
              \<and> AlgoUpdates (updates s1) = []
              \<and> distinct [Sender (Txn stxn), Receiver (Txn stxn), feeAddr s1]"
    have z: "\<And>a. algoDelta [] a = 0"
      by (simp add: algoDelta_def)
    from h show "sint (algoDelta (AlgoUpdates (updates s')) (Sender (Txn stxn))) = - 210
                \<and> sint (algoDelta (AlgoUpdates (updates s')) (Receiver (Txn stxn))) = 200
                \<and> sint (algoDelta (AlgoUpdates (updates s')) (feeAddr s1)) = 10"
      by (auto simp: tdelta fee z to_int64_def)
  qed
  from fee tdelta scen processed(1) show ?thesis
    by (simp add: Let_def)
qed


theorem fee_accounting_first_witness:
  "AddTransaction noFault New headersDb 1 0 (Enc payment) = (None, afterPayment, headersDb) \<and>
   sint (algoDelta (AlgoUpdates (updates afterPayment)) 1) = - 210 \<and>
   sint (algoDelta (AlgoUpdates (updates afterPayment)) 2) = 200 \<and>
   sint (algoDelta (AlgoUpdates (updates afterPayment)) 9) = 10"
proof -
  have h: "AddTransaction noFault New headersDb 1 0 (Enc payment) = (None, afterPayment, headersDb)"
    by (simp add: engine_defs commit_defs input_defs afterPayment_def)
  have r: "AddTransaction_round noFault New headersDb 1 =
      (None, New\<lparr>currentRound := 1, feeAddr := 9, rewardAddr := 8, rewardsLevel := 7\<rparr>, headersDb)"
    by (simp add: engine_defs commit_defs input_defs)
  have p: "Type (Txn payment) = ''pay'' \<and> Fee (Txn payment) = 10 \<and> Amount (Txn payment) = 200
      \<and> SenderRewards payment = 0 \<and> ReceiverRewards payment = 0 \<and> ClosingAmount payment = 0
      \<and> CloseRewards payment = 0
      \<and> AlgoUpdates (updates (New\<lparr>currentRound := 1, feeAddr := 9, rewardAddr := 8,
            rewardsLevel := 7\<rparr>)) = []
      \<and> distinct [Sender (Txn payment), Receiver (Txn payment),
            feeAddr (New\<lparr>currentRound := 1, feeAddr := 9, rewardAddr := 8, rewardsLevel := 7\<rparr>)]"
    by (simp add: input_defs New_def noUpdates_def)
  note c = fee_accounting_first [OF h, unfolded Let_def r fst_conv snd_conv,
      THEN conjunct2, THEN conjunct2, THEN mp, OF p]
  from c h show ?thesis
    by (simp add: input_defs)
qed

text \<open>
  C9. Claim: a read error shows as the last element of the cursor's sequence, with no
  normal element after it, and never as a silent end. In the code the \<^verbatim>\<open>break\<close> after
  an error row leaves only the \<^verbatim>\<open>select\<close>: a row that scans well after one that did
  not is sent after the error row. And the sequence is the same whether the rows ended
  or reading them failed.
\<close>

theorem row_follows_error_row:
  "yieldTxnsThread [(ScanErr, Sent), (ScanOk 5 0 (Enc payment), Sent)] Exhausted =
     [zeroRow\<lparr>Error := Some ErrScan\<rparr>,
      zeroRow\<lparr>Round := 5, Intra := 0, TxnBytes := Some (Enc payment)\<rparr>] \<and>
   yieldTxnsThread rows NextFailed = yieldTxnsThread rows Exhausted"
  by (simp add: yieldTxnsThread_ignores_end)

text \<open>
  C10. A decode failure returns with the engine and the database unchanged. When
  \<^verbatim>\<open>AddTransaction\<close> fails with the unknown-type error, the returned engine is the one
  after the fee step: relative to the engine \<open>s1\<close> after the round check, the sender
  is debited the fee, the fee sink credited the fee, and the sender's reward is booked
  (sender credited, rewards pool debited); the batch keeps these deltas. The error
  carries the round, the index and the type, and the type is none of the five known.
\<close>

theorem unknown_type_keeps_fee_deltas:
  "AddTransaction fails s db round intra Garbled = (Some (FailedDecode round intra), s, db) \<and>
   (AddTransaction fails s db round intra (Enc stxn) = (Some (UnknownType r i ty), s', db') \<longrightarrow>
      (let s1 = fst (snd (AddTransaction_round fails s db round)); t = Txn stxn
       in s' = AddTransaction_fee stxn s1
          \<and> (\<forall>a. algoDelta (AlgoUpdates (updates s')) a =
                 algoDelta (AlgoUpdates (updates s1)) a
                 + (if a = Sender t then to_int64 (SenderRewards stxn) - to_int64 (Fee t) else 0)
                 + (if a = feeAddr s1 then to_int64 (Fee t) else 0)
                 - (if a = rewardAddr s1 then to_int64 (SenderRewards stxn) else 0))
          \<and> r = round \<and> i = intra \<and> ty = Type t
          \<and> Type t \<notin> {''pay'', ''keyreg'', ''acfg'', ''axfer'', ''afrz''}))"
proof (intro conjI impI)
  show "AddTransaction fails s db round intra Garbled = (Some (FailedDecode round intra), s, db)"
    by (simp add: AddTransaction_def)
next
  assume a: "AddTransaction fails s db round intra (Enc stxn) = (Some (UnknownType r i ty), s', db')"
  then show "let s1 = fst (snd (AddTransaction_round fails s db round)); t = Txn stxn
       in s' = AddTransaction_fee stxn s1
          \<and> (\<forall>a. algoDelta (AlgoUpdates (updates s')) a =
                 algoDelta (AlgoUpdates (updates s1)) a
                 + (if a = Sender t then to_int64 (SenderRewards stxn) - to_int64 (Fee t) else 0)
                 + (if a = feeAddr s1 then to_int64 (Fee t) else 0)
                 - (if a = rewardAddr s1 then to_int64 (SenderRewards stxn) else 0))
          \<and> r = round \<and> i = intra \<and> ty = Type t
          \<and> Type t \<notin> {''pay'', ''keyreg'', ''acfg'', ''axfer'', ''afrz''}"
  proof (cases rule: AddTransaction_cases)
    case (round_error err)
    with round_error_shape [OF round_error(1)] show ?thesis by auto
  next
    case (processed s1)
    from processed(2) have "s' = AddTransaction_fee stxn s1" "r = round" "i = intra"
      "ty = Type (Txn stxn)" "Type (Txn stxn) \<notin> {''pay'', ''keyreg'', ''acfg'', ''axfer'', ''afrz''}"
      by (auto simp: Let_def split: if_splits)
    with processed(1) show ?thesis
      by (simp add: Let_def fee_step_delta)
  qed
qed

theorem unknown_type_keeps_fee_deltas_witness:
  "AddTransaction noFault New headersDb 1 0 (Enc strangeTxn) =
     (Some (UnknownType 1 0 ''xyz''), afterStrange, headersDb) \<and>
   sint (algoDelta (AlgoUpdates (updates afterStrange)) 1) = - 10 \<and>
   sint (algoDelta (AlgoUpdates (updates afterStrange)) 9) = 10 \<and>
   afterStrange = AddTransaction_fee strangeTxn
     (New\<lparr>currentRound := 1, feeAddr := 9, rewardAddr := 8, rewardsLevel := 7\<rparr>)"
proof -
  have h: "AddTransaction noFault New headersDb 1 0 (Enc strangeTxn) =
     (Some (UnknownType 1 0 ''xyz''), afterStrange, headersDb)"
    by (simp add: engine_defs commit_defs input_defs afterStrange_def)
  have r: "AddTransaction_round noFault New headersDb 1 =
      (None, New\<lparr>currentRound := 1, feeAddr := 9, rewardAddr := 8, rewardsLevel := 7\<rparr>, headersDb)"
    by (simp add: engine_defs commit_defs input_defs)
  note c = unknown_type_keeps_fee_deltas [of noFault New headersDb 1 0 strangeTxn 1 0 "''xyz''"
      afterStrange headersDb, THEN conjunct2, THEN mp, OF h,
      unfolded Let_def r fst_conv snd_conv]
  have "sint (algoDelta (AlgoUpdates (updates afterStrange)) 1) = - 10"
    "sint (algoDelta (AlgoUpdates (updates afterStrange)) 9) = 10"
    by (simp_all add: afterStrange_def algoDelta_def)
  with c h show ?thesis
    by simp
qed

end
